theory Spec2Isabelle
  imports Main
begin

section \<open>JavaScript values\<close>

text \<open>
  The two form scripts only read values, test them for truthiness and pass them on.
  A value is one of the JSON shapes, or \<open>undefined\<close> (what reading an absent
  property gives). Numbers are the integer-valued ones: the counters and the 0/1 flags
  the scripts handle. An object is the list of its properties in the order they were
  written; a later binding of a key overrides an earlier one.
\<close>

datatype jsval =
    JUndefined
  | JNull
  | JBool bool
  | JNum int
  | JStr string
  | JArr "jsval list"
  | JObj "(string \<times> jsval) list"

type_synonym jsobj = "(string \<times> jsval) list"

datatype js_error = TypeError

text \<open>ToBoolean: what \<open>if (v)\<close>, \<open>!v\<close>, \<open>v ? a : b\<close>, \<open>v && w\<close> and \<open>v || w\<close> test.\<close>

fun truthy :: "jsval \<Rightarrow> bool" where
  "truthy JUndefined = False"
| "truthy JNull = False"
| "truthy (JBool b) = b"
| "truthy (JNum n) = (n \<noteq> 0)"
| "truthy (JStr s) = (s \<noteq> [])"
| "truthy (JArr xs) = True"
| "truthy (JObj kvs) = True"

definition js_not :: "jsval \<Rightarrow> jsval" where
  "js_not v = JBool (\<not> truthy v)"

definition js_and :: "jsval \<Rightarrow> jsval \<Rightarrow> jsval" where
  "js_and v w = (if truthy v then w else v)"

definition js_or :: "jsval \<Rightarrow> jsval \<Rightarrow> jsval" where
  "js_or v w = (if truthy v then v else w)"

text \<open>\<open>obj.k\<close> on an object: the value bound last to \<open>k\<close>, \<open>undefined\<close> when there is none.\<close>

definition get_prop :: "jsobj \<Rightarrow> string \<Rightarrow> jsval" where
  "get_prop obj k = (case map_of (rev obj) k of None \<Rightarrow> JUndefined | Some v \<Rightarrow> v)"

text \<open>
  Reading a data property \<open>k\<close> of a value that is neither \<open>null\<close> nor
  \<open>undefined\<close>. A boolean, a number, a string or an array has no property of the
  names the scripts read (\<open>fetched\<close>, \<open>created\<close>, \<open>skipped\<close>, \<open>errors\<close>), so
  the read gives \<open>undefined\<close> there.
\<close>

fun own :: "jsval \<Rightarrow> string \<Rightarrow> jsval" where
  "own (JObj obj) k = get_prop obj k"
| "own v k = JUndefined"

text \<open>
  The destructuring \<open>const { k1, ..., kn } = v\<close>: a TypeError on \<open>null\<close> and
  \<open>undefined\<close>, the properties read in order otherwise.
\<close>

fun destructure :: "jsval \<Rightarrow> string list \<Rightarrow> js_error + jsval list" where
  "destructure JUndefined ks = Inl TypeError"
| "destructure JNull ks = Inl TypeError"
| "destructure v ks = Inr (map (own v) ks)"

section \<open>The host framework\<close>

text \<open>
  The framework services the scripts call and do not define, taken as parameters:
  \<open>translate\<close> is the framework's \<open>__(text, replace)\<close> (translation followed by
  the substitution of the \<open>{i}\<close> placeholders; \<open>None\<close> when the call passes no
  replacement list), \<open>get_today\<close> is \<open>frappe.datetime.get_today()\<close> and
  \<open>add_days\<close> is \<open>frappe.datetime.add_days(date, days)\<close>.
\<close>

record host =
  translate :: "string \<Rightarrow> jsval list option \<Rightarrow> jsval"
  get_today :: jsval
  add_days :: "jsval \<Rightarrow> int \<Rightarrow> jsval"

text \<open>
  The form handed to a \<open>refresh\<close> handler: \<open>is_new\<close> is what
  \<open>frm.is_new()\<close> returns, \<open>doc\<close> is \<open>frm.doc\<close>.
\<close>

record frm =
  is_new :: jsval
  doc :: jsobj

text \<open>One entry of the field list given to \<open>frappe.prompt\<close>; a key the literal leaves out is \<open>None\<close>.\<close>

record docfield =
  fieldname :: string
  fieldtype :: string
  label :: string
  reqd :: "jsval option"
  default_value :: "jsval option"

text \<open>
  What a handler does to the user interface, in order. A closure handed to the
  framework is a function of the host at the time the framework runs it and of the
  argument the framework passes:
  \<^item> \<open>Add_custom_button label f\<close> is \<open>frm.add_custom_button(label, f)\<close>;
  \<^item> \<open>AddClass c\<close> is \<open>.addClass(c)\<close> on the button just added;
  \<^item> \<open>Prompt fields f title primary_label\<close> is \<open>frappe.prompt\<close>;
  \<^item> \<open>Call method args freeze freeze_message f\<close> is \<open>frappe.call\<close> with
    these options, \<open>None\<close> for an option the literal leaves out;
  \<^item> \<open>Msgprint v\<close> is \<open>frappe.msgprint(v)\<close>, \<open>Reload_doc\<close> is \<open>frm.reload_doc()\<close>;
  \<^item> \<open>Throw e\<close> is an exception leaving the handler.
\<close>

datatype effect =
    Add_custom_button jsval "host \<Rightarrow> effect list"
  | AddClass string
  | Prompt "docfield list" "host \<Rightarrow> jsobj \<Rightarrow> effect list" jsval jsval
  | Call string "jsobj option" "jsval option" "jsval option" "host \<Rightarrow> jsobj \<Rightarrow> effect list"
  | Msgprint jsval
  | Reload_doc
  | Throw js_error

text \<open>
  The labels of the buttons a handler adds, the remote calls it makes (method and
  arguments) and the field lists of the prompts it opens.
\<close>

fun buttons :: "effect list \<Rightarrow> jsval list" where
  "buttons [] = []"
| "buttons (Add_custom_button l f # es) = l # buttons es"
| "buttons (e # es) = buttons es"

fun remote_calls :: "effect list \<Rightarrow> (string \<times> jsobj option) list" where
  "remote_calls [] = []"
| "remote_calls (Call m a fr fm cb # es) = (m, a) # remote_calls es"
| "remote_calls (e # es) = remote_calls es"

fun prompts :: "effect list \<Rightarrow> docfield list list" where
  "prompts [] = []"
| "prompts (Prompt fs f t p # es) = fs # prompts es"
| "prompts (e # es) = prompts es"

text \<open>
  What the framework does with a closure it was handed, with the host at that time
  and the argument it passes: a click on a button, the confirmation of a prompt with
  the values entered, the response of a call.
\<close>

datatype event =
    Click host
  | Confirm host jsobj
  | Respond host jsobj

text \<open>
  \<open>issued es evs e\<close>: after the handler has done \<open>es\<close>, the events \<open>evs\<close>
  happen, each on a closure that the run before it handed to the framework, and the
  effect \<open>e\<close> is one of the effects of the last closure run (of \<open>es\<close> itself when
  \<open>evs\<close> is empty).
\<close>

inductive issued :: "effect list \<Rightarrow> event list \<Rightarrow> effect \<Rightarrow> bool" where
  now: "e \<in> set es \<Longrightarrow> issued es [] e"
| click: "Add_custom_button l f \<in> set es \<Longrightarrow> issued (f h) evs e \<Longrightarrow>
     issued es (Click h # evs) e"
| confirm: "Prompt fs f t p \<in> set es \<Longrightarrow> issued (f h vs) evs e \<Longrightarrow>
     issued es (Confirm h vs # evs) e"
| respond: "Call m a fr fm f \<in> set es \<Longrightarrow> issued (f h r) evs e \<Longrightarrow>
     issued es (Respond h r # evs) e"

section \<open>The Sync Now script\<close>

text \<open>
  The file \<^verbatim>\<open>moola_settings.js\<close>, from the innermost closure outwards: the callback
  of the call (line 8), the click handler of the button (lines 4 to 10) and the
  \<open>refresh\<close> handler (lines 2 to 12). The handlers act on the one form they were
  registered for, so the closures need nothing of \<open>frm\<close>.
\<close>

definition sync_now_callback :: "host \<Rightarrow> jsobj \<Rightarrow> effect list" where
  "sync_now_callback h r = [Msgprint (js_or (get_prop r ''message'') (JStr ''Done''))]"

definition sync_now_on_click :: "host \<Rightarrow> effect list" where
  "sync_now_on_click h =
     [Call ''moola_integration.api.sync_now'' None (Some (JBool True)) None
        sync_now_callback]"

definition sync_now_refresh :: "frm \<Rightarrow> effect list" where
  "sync_now_refresh f =
     (if truthy (js_and (js_not (is_new f)) (get_prop (doc f) ''enabled''))
      then [Add_custom_button (JStr ''Sync Now'') sync_now_on_click]
      else [])"

section \<open>The Sync From Date script\<close>

text \<open>
  The second script, from the innermost closure outwards: the callback of the call
  (lines 30 to 40), the handler that runs when the prompt is confirmed (lines 21 to 42),
  the click handler of the button (lines 4 to 46) and the \<open>refresh\<close> handler
  (lines 2 to 48). \<open>frm.reload_doc()\<close> reloads the one form, so here too the
  closures need nothing of \<open>frm\<close>.
\<close>

text \<open>The text of the busy message ends in the character U+2026, here its three UTF-8 bytes.\<close>

definition syncing_from :: string where
  "syncing_from = ''Syncing from {0}'' @ [CHR 0xE2, CHR 0x80, CHR 0xA6]"

definition sync_complete :: string where
  "sync_complete =
     ''Sync complete.<br>Fetched: {0}<br>Created JE: {1}<br>Skipped: {2}<br>Errors: {3}''"

definition sync_from_date_callback :: "host \<Rightarrow> jsobj \<Rightarrow> effect list" where
  "sync_from_date_callback h r =
     (if truthy (get_prop r ''message'') then
        (case destructure (get_prop r ''message'')
                [''fetched'', ''created'', ''skipped'', ''errors''] of
           Inl e \<Rightarrow> [Throw e]
         | Inr counters \<Rightarrow>
             [Msgprint (translate h sync_complete (Some counters)), Reload_doc])
      else [])"

definition sync_from_date_on_confirm :: "host \<Rightarrow> jsobj \<Rightarrow> effect list" where
  "sync_from_date_on_confirm h values =
     [Call ''moola_integration.api.sync_from_date''
        (Some [(''from_date'', get_prop values ''from_date''),
               (''advance_cursor'',
                  if truthy (get_prop values ''advance_cursor'') then JNum 1 else JNum 0)])
        (Some (JBool True))
        (Some (translate h syncing_from (Some [get_prop values ''from_date''])))
        sync_from_date_callback]"

definition sync_from_date_on_click :: "host \<Rightarrow> effect list" where
  "sync_from_date_on_click h =
     [Prompt
        [\<lparr>fieldname = ''from_date'', fieldtype = ''Date'', label = ''From Date'',
          reqd = Some (JNum 1),
          default_value = Some (add_days h (get_today h) (- 7))\<rparr>,
         \<lparr>fieldname = ''advance_cursor'', fieldtype = ''Check'',
          label = ''Advance Cursor if Successful (optional)'',
          reqd = None,
          default_value = Some (JNum 0)\<rparr>]
        sync_from_date_on_confirm
        (translate h ''Sync From Date'' None)
        (translate h ''Run'' None)]"

definition sync_from_date_refresh :: "host \<Rightarrow> frm \<Rightarrow> effect list" where
  "sync_from_date_refresh h f =
     (if truthy (js_not (is_new f))
      then [Add_custom_button (translate h ''Sync From Date'' None) sync_from_date_on_click,
            AddClass ''btn-primary'']
      else [])"

section \<open>A stub host\<close>

text \<open>
  A host to run the handlers on concrete inputs: \<open>__\<close> returns the text it was
  given followed by the replacements it was given, today is 2024-01-08, and
  \<open>add_days\<close> knows the one date seven days before it.
\<close>

definition stub_host :: host where
  "stub_host =
     \<lparr>translate =
        (\<lambda>txt replace. JArr (JStr txt # (case replace of None \<Rightarrow> [] | Some vs \<Rightarrow> vs))),
      get_today = JStr ''2024-01-08'',
      add_days =
        (\<lambda>d n. if d = JStr ''2024-01-08'' \<and> n = - 7 then JStr ''2024-01-01''
                else JUndefined)\<rparr>"

section \<open>Truthiness and property reads\<close>

lemma truthy_js_not: "truthy (js_not v) = (\<not> truthy v)"
  by (simp add: js_not_def)

lemma truthy_js_and: "truthy (js_and v w) = (truthy v \<and> truthy w)"
  by (simp add: js_and_def)

lemma js_or_truthy: "truthy v \<Longrightarrow> js_or v w = v"
  by (simp add: js_or_def)

lemma js_or_falsy: "\<not> truthy v \<Longrightarrow> js_or v w = w"
  by (simp add: js_or_def)

text \<open>The falsy values are these five and no other.\<close>

lemma falsy_iff: "\<not> truthy v \<longleftrightarrow> v \<in> {JUndefined, JNull, JBool False, JNum 0, JStr ''''}"
  by (cases v) auto

text \<open>Destructuring a truthy value never throws.\<close>

lemma destructure_truthy: "truthy v \<Longrightarrow> destructure v ks = Inr (map (own v) ks)"
  by (cases v) simp_all

lemma get_prop_absent: "k \<notin> fst ` set obj \<Longrightarrow> get_prop obj k = JUndefined"
proof -
  assume "k \<notin> fst ` set obj"
  then have "map_of (rev obj) k = None"
    by (simp add: map_of_eq_None_iff)
  then show ?thesis
    by (simp add: get_prop_def)
qed

section \<open>The arguments of the sync\_from\_date call\<close>

text \<open>
  C1. When the prompt is confirmed with \<open>from_date = "2024-01-01"\<close> and the
  \<open>advance_cursor\<close> flag unchecked (a falsy value), the handler makes one remote
  call, to \<open>sync_from_date\<close>, and its arguments are exactly
  \<open>{from_date: "2024-01-01", advance_cursor: 0}\<close>: these two keys and no other.
\<close>

theorem sync_from_date_args_unchecked:
  assumes "get_prop values ''from_date'' = JStr ''2024-01-01''"
    and "\<not> truthy (get_prop values ''advance_cursor'')"
  shows "remote_calls (sync_from_date_on_confirm h values) =
           [(''moola_integration.api.sync_from_date'',
             Some [(''from_date'', JStr ''2024-01-01''), (''advance_cursor'', JNum 0)])]"
  using assms by (simp add: sync_from_date_on_confirm_def)

theorem sync_from_date_args_unchecked_witness:
  "get_prop [(''from_date'', JStr ''2024-01-01''), (''advance_cursor'', JNum 0)] ''from_date''
     = JStr ''2024-01-01'' \<and>
   \<not> truthy (get_prop [(''from_date'', JStr ''2024-01-01''), (''advance_cursor'', JNum 0)]
                ''advance_cursor'') \<and>
   remote_calls (sync_from_date_on_confirm stub_host
       [(''from_date'', JStr ''2024-01-01''), (''advance_cursor'', JNum 0)]) =
     [(''moola_integration.api.sync_from_date'',
       Some [(''from_date'', JStr ''2024-01-01''), (''advance_cursor'', JNum 0)])]"
proof -
  let ?v = "[(''from_date'', JStr ''2024-01-01''), (''advance_cursor'', JNum 0)]"
  have d: "get_prop ?v ''from_date'' = JStr ''2024-01-01''"
    by (simp add: get_prop_def)
  have c: "\<not> truthy (get_prop ?v ''advance_cursor'')"
    by (simp add: get_prop_def)
  from d c sync_from_date_args_unchecked [OF d c, of stub_host] show ?thesis
    by blast
qed

text \<open>
  C2. Whatever the prompt returns, the \<open>advance_cursor\<close> argument of the call is the
  number 1 when the flag is truthy and the number 0 when it is falsy; it is never a
  boolean.
\<close>

theorem advance_cursor_sent_as_integer:
  "\<exists>args. remote_calls (sync_from_date_on_confirm h values) =
             [(''moola_integration.api.sync_from_date'', Some args)] \<and>
          get_prop args ''advance_cursor'' =
             JNum (if truthy (get_prop values ''advance_cursor'') then 1 else 0) \<and>
          (\<forall>b. get_prop args ''advance_cursor'' \<noteq> JBool b)"
  by (simp add: sync_from_date_on_confirm_def get_prop_def)

theorem advance_cursor_sent_as_integer_witness:
  "remote_calls (sync_from_date_on_confirm stub_host
       [(''from_date'', JStr ''2024-01-01''), (''advance_cursor'', JBool True)]) =
     [(''moola_integration.api.sync_from_date'',
       Some [(''from_date'', JStr ''2024-01-01''), (''advance_cursor'', JNum 1)])]"
  using advance_cursor_sent_as_integer
    [of stub_host "[(''from_date'', JStr ''2024-01-01''), (''advance_cursor'', JBool True)]"]
  by (simp add: sync_from_date_on_confirm_def get_prop_def)

section \<open>When the buttons are added\<close>

text \<open>
  C3. On a refresh, the Sync Now script adds the Sync Now button if and only if the
  record is saved (\<open>frm.is_new()\<close> is falsy) and its \<open>enabled\<close> attribute is
  truthy; in every other state it adds no button at all.
\<close>

theorem sync_now_button_iff:
  "(JStr ''Sync Now'' \<in> set (buttons (sync_now_refresh f)) \<longleftrightarrow>
      \<not> truthy (is_new f) \<and> truthy (get_prop (doc f) ''enabled'')) \<and>
   buttons (sync_now_refresh f) =
     (if \<not> truthy (is_new f) \<and> truthy (get_prop (doc f) ''enabled'')
      then [JStr ''Sync Now''] else [])"
  by (simp add: sync_now_refresh_def truthy_js_and truthy_js_not)

theorem sync_now_button_iff_witness:
  "JStr ''Sync Now'' \<in> set (buttons (sync_now_refresh
       \<lparr>is_new = JUndefined, doc = [(''enabled'', JNum 1)]\<rparr>)) \<and>
   JStr ''Sync Now'' \<notin> set (buttons (sync_now_refresh
       \<lparr>is_new = JUndefined, doc = [(''enabled'', JNum 0)]\<rparr>)) \<and>
   JStr ''Sync Now'' \<notin> set (buttons (sync_now_refresh
       \<lparr>is_new = JNum 1, doc = [(''enabled'', JNum 1)]\<rparr>))"
  using sync_now_button_iff [of "\<lparr>is_new = JUndefined, doc = [(''enabled'', JNum 1)]\<rparr>"]
    sync_now_button_iff [of "\<lparr>is_new = JUndefined, doc = [(''enabled'', JNum 0)]\<rparr>"]
    sync_now_button_iff [of "\<lparr>is_new = JNum 1, doc = [(''enabled'', JNum 1)]\<rparr>"]
  by (simp add: get_prop_def)

text \<open>
  C4. On a refresh, the Sync From Date script adds the Sync From Date button if and
  only if the record is saved; it adds no button exactly when the record is new, and
  what it does is the same whatever the document (so whatever \<open>enabled\<close> is).
\<close>

theorem sync_from_date_button_iff:
  "(translate h ''Sync From Date'' None \<in> set (buttons (sync_from_date_refresh h f)) \<longleftrightarrow>
      \<not> truthy (is_new f)) \<and>
   buttons (sync_from_date_refresh h f) =
     (if truthy (is_new f) then [] else [translate h ''Sync From Date'' None]) \<and>
   sync_from_date_refresh h (f\<lparr>doc := d\<rparr>) = sync_from_date_refresh h f"
  by (simp add: sync_from_date_refresh_def truthy_js_not)

theorem sync_from_date_button_iff_witness:
  "buttons (sync_from_date_refresh stub_host
       \<lparr>is_new = JUndefined, doc = [(''enabled'', JNum 0)]\<rparr>) =
     [JArr [JStr ''Sync From Date'']] \<and>
   buttons (sync_from_date_refresh stub_host
       \<lparr>is_new = JNum 1, doc = [(''enabled'', JNum 1)]\<rparr>) = []"
  using sync_from_date_button_iff
      [of stub_host "\<lparr>is_new = JUndefined, doc = [(''enabled'', JNum 0)]\<rparr>"]
    sync_from_date_button_iff
      [of stub_host "\<lparr>is_new = JNum 1, doc = [(''enabled'', JNum 1)]\<rparr>"]
  by (simp add: stub_host_def)

section \<open>The responses\<close>

text \<open>
  C5. When the response of \<open>sync_from_date\<close> carries a result payload (a truthy
  \<open>r.message\<close>), the callback shows one message, the summary text with the four
  counters \<open>fetched\<close>, \<open>created\<close>, \<open>skipped\<close>, \<open>errors\<close> of the payload as
  its replacements \<open>{0}\<close> to \<open>{3}\<close> in this order, and then reloads the document;
  it does nothing else and throws nothing.
\<close>

theorem sync_from_date_summary_then_reload:
  assumes "truthy (get_prop r ''message'')"
  shows "sync_from_date_callback h r =
           [Msgprint (translate h sync_complete
              (Some [own (get_prop r ''message'') ''fetched'',
                     own (get_prop r ''message'') ''created'',
                     own (get_prop r ''message'') ''skipped'',
                     own (get_prop r ''message'') ''errors''])),
            Reload_doc]"
  using assms by (simp add: sync_from_date_callback_def destructure_truthy)

theorem sync_from_date_summary_then_reload_witness:
  "truthy (get_prop [(''message'', JObj [(''fetched'', JNum 10), (''created'', JNum 8),
                                        (''skipped'', JNum 1), (''errors'', JNum 1)])]
             ''message'') \<and>
   sync_from_date_callback stub_host
     [(''message'', JObj [(''fetched'', JNum 10), (''created'', JNum 8),
                         (''skipped'', JNum 1), (''errors'', JNum 1)])] =
     [Msgprint (JArr [JStr sync_complete, JNum 10, JNum 8, JNum 1, JNum 1]), Reload_doc]"
proof -
  let ?r = "[(''message'', JObj [(''fetched'', JNum 10), (''created'', JNum 8),
                                (''skipped'', JNum 1), (''errors'', JNum 1)])]"
  have t: "truthy (get_prop ?r ''message'')"
    by (simp add: get_prop_def)
  from t sync_from_date_summary_then_reload [OF t, of stub_host] show ?thesis
    by (simp add: get_prop_def stub_host_def)
qed

text \<open>
  C6. The Sync Now callback shows exactly the message text of the response when there
  is one (a string of at least one character, such as \<open>"All good"\<close>), and exactly
  \<open>"Done"\<close> when the response has no message (the property is absent or
  \<open>undefined\<close>).
\<close>

theorem sync_now_message_or_done:
  "(get_prop r ''message'' = JStr (c # cs) \<longrightarrow>
      sync_now_callback h r = [Msgprint (JStr (c # cs))]) \<and>
   (get_prop r ''message'' = JUndefined \<longrightarrow>
      sync_now_callback h r = [Msgprint (JStr ''Done'')])"
  by (simp add: sync_now_callback_def js_or_def)

theorem sync_now_message_or_done_witness:
  "sync_now_callback stub_host [(''message'', JStr ''All good'')] =
     [Msgprint (JStr ''All good'')] \<and>
   sync_now_callback stub_host [(''message'', JUndefined)] = [Msgprint (JStr ''Done'')] \<and>
   sync_now_callback stub_host [] = [Msgprint (JStr ''Done'')]"
  using sync_now_message_or_done
      [of "[(''message'', JStr ''All good'')]" "CHR ''A''" "''ll good''" stub_host]
    sync_now_message_or_done [of "[(''message'', JUndefined)]" _ _ stub_host]
    sync_now_message_or_done [of "[]" _ _ stub_host]
  by (simp add: get_prop_def)

text \<open>
  C9. When the response of \<open>sync_from_date\<close> has no payload or a falsy one, the
  callback does nothing: no message (no fallback text either) and no reload.
\<close>

theorem sync_from_date_silent_without_payload:
  assumes "\<not> truthy (get_prop r ''message'')"
  shows "sync_from_date_callback h r = []"
  using assms by (simp add: sync_from_date_callback_def)

theorem sync_from_date_silent_without_payload_witness:
  "\<not> truthy (get_prop [] ''message'') \<and> sync_from_date_callback stub_host [] = [] \<and>
   \<not> truthy (get_prop [(''message'', JNull)] ''message'') \<and>
   sync_from_date_callback stub_host [(''message'', JNull)] = []"
proof -
  have a: "\<not> truthy (get_prop [] ''message'')"
    by (simp add: get_prop_def)
  have b: "\<not> truthy (get_prop [(''message'', JNull)] ''message'')"
    by (simp add: get_prop_def)
  from a b sync_from_date_silent_without_payload [OF a, of stub_host]
    sync_from_date_silent_without_payload [OF b, of stub_host]
  show ?thesis by blast
qed

text \<open>
  C10. The Sync Now callback shows exactly \<open>"Done"\<close> for every falsy message of the
  response: \<open>undefined\<close> or absent, and also the empty string, 0, \<open>null\<close> and
  \<open>false\<close>.
\<close>

theorem sync_now_done_on_falsy:
  assumes "\<not> truthy (get_prop r ''message'')"
  shows "sync_now_callback h r = [Msgprint (JStr ''Done'')]"
  using assms by (simp add: sync_now_callback_def js_or_falsy)

theorem sync_now_done_on_falsy_witness:
  "sync_now_callback stub_host [(''message'', JStr '''')] = [Msgprint (JStr ''Done'')] \<and>
   sync_now_callback stub_host [(''message'', JNum 0)] = [Msgprint (JStr ''Done'')] \<and>
   sync_now_callback stub_host [(''message'', JNull)] = [Msgprint (JStr ''Done'')] \<and>
   sync_now_callback stub_host [(''message'', JBool False)] = [Msgprint (JStr ''Done'')] \<and>
   sync_now_callback stub_host [(''message'', JUndefined)] = [Msgprint (JStr ''Done'')]"
proof -
  have f: "\<not> truthy (get_prop [(''message'', v)] ''message'')"
    if "v \<in> {JStr '''', JNum 0, JNull, JBool False, JUndefined}" for v
    using that by (auto simp: get_prop_def)
  show ?thesis
    using sync_now_done_on_falsy [OF f, of "JStr ''''" stub_host]
      sync_now_done_on_falsy [OF f, of "JNum 0" stub_host]
      sync_now_done_on_falsy [OF f, of JNull stub_host]
      sync_now_done_on_falsy [OF f, of "JBool False" stub_host]
      sync_now_done_on_falsy [OF f, of JUndefined stub_host]
    by simp
qed

section \<open>The prompt\<close>

text \<open>
  C7. A click on the Sync From Date button opens one prompt with exactly two fields:
  \<open>from_date\<close>, a Date field marked required whose default is what the host's
  \<open>add_days\<close> gives for today and \<open>-7\<close>, and \<open>advance_cursor\<close>, a Check field
  with no \<open>reqd\<close> mark whose default is 0.
\<close>

theorem prompt_has_two_fields:
  "\<exists>fd ac. prompts (sync_from_date_on_click h) = [[fd, ac]] \<and>
     fieldname fd = ''from_date'' \<and> fieldtype fd = ''Date'' \<and>
     reqd fd = Some (JNum 1) \<and>
     default_value fd = Some (add_days h (get_today h) (- 7)) \<and>
     fieldname ac = ''advance_cursor'' \<and> fieldtype ac = ''Check'' \<and>
     reqd ac = None \<and>
     default_value ac = Some (JNum 0)"
  by (simp add: sync_from_date_on_click_def)

theorem prompt_has_two_fields_witness:
  "map fieldname (hd (prompts (sync_from_date_on_click stub_host))) =
     [''from_date'', ''advance_cursor''] \<and>
   map default_value (hd (prompts (sync_from_date_on_click stub_host))) =
     [Some (JStr ''2024-01-01''), Some (JNum 0)]"
  using prompt_has_two_fields [of stub_host]
  by (auto simp: stub_host_def)

section \<open>Every remote call\<close>

text \<open>
  Reading \<open>issued\<close> one event at a time, and then what the closures can do, from
  the innermost outwards: the callbacks make no call and hand no closure on, so a call
  comes from the click handler of the Sync Now button or from the confirm handler of the
  Sync From Date prompt, and from nowhere else.
\<close>

inductive_simps issued_here: "issued es [] e"
inductive_simps issued_Click: "issued es (Click h # evs) e"
inductive_simps issued_Confirm: "issued es (Confirm h vs # evs) e"
inductive_simps issued_Respond: "issued es (Respond h r # evs) e"

lemmas issued_simps = issued_here issued_Click issued_Confirm issued_Respond

lemma issued_sync_now_callback:
  "\<not> issued (sync_now_callback h r) evs (Call m a fr fm cb)"
proof (cases evs)
  case Nil
  then show ?thesis
    by (simp add: issued_simps sync_now_callback_def)
next
  case (Cons ev evs')
  then show ?thesis
    by (cases ev) (simp_all add: issued_simps sync_now_callback_def)
qed

lemma issued_sync_now_on_click:
  assumes "issued (sync_now_on_click h) evs (Call m a fr fm cb)"
  shows "evs = []"
proof (cases evs)
  case Nil
  then show ?thesis .
next
  case (Cons ev evs')
  with assms show ?thesis
    by (cases ev)
      (simp_all add: issued_simps sync_now_on_click_def issued_sync_now_callback)
qed

lemma issued_sync_now_refresh:
  assumes "issued (sync_now_refresh f) evs (Call m a fr fm cb)"
  shows "\<exists>h1. evs = [Click h1]"
proof (cases evs)
  case Nil
  with assms show ?thesis
    by (simp add: issued_simps sync_now_refresh_def split: if_splits)
next
  case (Cons ev evs')
  show ?thesis
  proof (cases ev)
    case (Click h1)
    with assms Cons have "issued (sync_now_on_click h1) evs' (Call m a fr fm cb)"
      by (simp add: issued_simps sync_now_refresh_def split: if_splits)
    then have "evs' = []"
      by (rule issued_sync_now_on_click)
    with Cons Click show ?thesis
      by simp
  next
    case (Confirm h1 vs)
    with assms Cons show ?thesis
      by (simp add: issued_simps sync_now_refresh_def split: if_splits)
  next
    case (Respond h1 r)
    with assms Cons show ?thesis
      by (simp add: issued_simps sync_now_refresh_def split: if_splits)
  qed
qed

lemma sync_from_date_callback_cases:
  "sync_from_date_callback h r = [] \<or>
   (\<exists>v. sync_from_date_callback h r = [Msgprint v, Reload_doc])"
  by (simp add: sync_from_date_callback_def destructure_truthy)

lemma issued_sync_from_date_callback:
  "\<not> issued (sync_from_date_callback h r) evs (Call m a fr fm cb)"
proof -
  from sync_from_date_callback_cases [of h r]
  consider "sync_from_date_callback h r = []"
    | v where "sync_from_date_callback h r = [Msgprint v, Reload_doc]"
    by blast
  then show ?thesis
  proof cases
    case 1
    show ?thesis
    proof (cases evs)
      case Nil
      with 1 show ?thesis
        by (simp add: issued_simps)
    next
      case (Cons ev evs')
      with 1 show ?thesis
        by (cases ev) (simp_all add: issued_simps)
    qed
  next
    case 2
    show ?thesis
    proof (cases evs)
      case Nil
      with 2 show ?thesis
        by (simp add: issued_simps)
    next
      case (Cons ev evs')
      with 2 show ?thesis
        by (cases ev) (simp_all add: issued_simps)
    qed
  qed
qed

lemma issued_sync_from_date_on_confirm:
  assumes "issued (sync_from_date_on_confirm h vs) evs (Call m a fr fm cb)"
  shows "evs = []"
proof (cases evs)
  case Nil
  then show ?thesis .
next
  case (Cons ev evs')
  with assms show ?thesis
    by (cases ev)
      (simp_all add: issued_simps sync_from_date_on_confirm_def
         issued_sync_from_date_callback)
qed

lemma issued_sync_from_date_on_click:
  assumes "issued (sync_from_date_on_click h) evs (Call m a fr fm cb)"
  shows "\<exists>h2 vs. evs = [Confirm h2 vs]"
proof (cases evs)
  case Nil
  with assms show ?thesis
    by (simp add: issued_simps sync_from_date_on_click_def)
next
  case (Cons ev evs')
  show ?thesis
  proof (cases ev)
    case (Click h1)
    with assms Cons show ?thesis
      by (simp add: issued_simps sync_from_date_on_click_def)
  next
    case (Confirm h2 vs)
    with assms Cons have "issued (sync_from_date_on_confirm h2 vs) evs' (Call m a fr fm cb)"
      by (simp add: issued_simps sync_from_date_on_click_def)
    then have "evs' = []"
      by (rule issued_sync_from_date_on_confirm)
    with Cons Confirm show ?thesis
      by simp
  next
    case (Respond h1 r)
    with assms Cons show ?thesis
      by (simp add: issued_simps sync_from_date_on_click_def)
  qed
qed

lemma issued_sync_from_date_refresh:
  assumes "issued (sync_from_date_refresh h f) evs (Call m a fr fm cb)"
  shows "\<exists>h1 h2 vs. evs = [Click h1, Confirm h2 vs]"
proof (cases evs)
  case Nil
  with assms show ?thesis
    by (simp add: issued_simps sync_from_date_refresh_def split: if_splits)
next
  case (Cons ev evs')
  show ?thesis
  proof (cases ev)
    case (Click h1)
    with assms Cons have "issued (sync_from_date_on_click h1) evs' (Call m a fr fm cb)"
      by (simp add: issued_simps sync_from_date_refresh_def split: if_splits)
    then obtain h2 vs where "evs' = [Confirm h2 vs]"
      using issued_sync_from_date_on_click by blast
    with Cons Click show ?thesis
      by simp
  next
    case (Confirm h1 vs)
    with assms Cons show ?thesis
      by (simp add: issued_simps sync_from_date_refresh_def split: if_splits)
  next
    case (Respond h1 r)
    with assms Cons show ?thesis
      by (simp add: issued_simps sync_from_date_refresh_def split: if_splits)
  qed
qed

lemma sync_now_call_at_click:
  "issued (sync_now_refresh f) [Click hc] (Call m a fr fm cb) \<longleftrightarrow>
     \<not> truthy (is_new f) \<and> truthy (get_prop (doc f) ''enabled'') \<and>
     m = ''moola_integration.api.sync_now'' \<and> a = None \<and>
     fr = Some (JBool True) \<and> fm = None \<and> cb = sync_now_callback"
  by (auto simp: issued_simps sync_now_refresh_def sync_now_on_click_def
      truthy_js_and truthy_js_not)

lemma sync_from_date_call_at_confirm:
  "issued (sync_from_date_refresh h f) [Click hc, Confirm hp vs] (Call m a fr fm cb) \<longleftrightarrow>
     \<not> truthy (is_new f) \<and>
     m = ''moola_integration.api.sync_from_date'' \<and>
     a = Some [(''from_date'', get_prop vs ''from_date''),
               (''advance_cursor'',
                  if truthy (get_prop vs ''advance_cursor'') then JNum 1 else JNum 0)] \<and>
     fr = Some (JBool True) \<and>
     fm = Some (translate hp syncing_from (Some [get_prop vs ''from_date''])) \<and>
     cb = sync_from_date_callback"
  by (auto simp: issued_simps sync_from_date_refresh_def sync_from_date_on_click_def
      sync_from_date_on_confirm_def truthy_js_not)

text \<open>
  C8. Every remote call that either script can make, in any run of its handlers, sets
  \<open>freeze\<close> to \<open>true\<close>. The Sync Now script calls only on a click of its button,
  and that call sets no freeze message. The Sync From Date script calls only on the
  confirmation of the prompt that a click opened, and that call sets the freeze message
  to the busy text with the \<open>from_date\<close> of the values just entered as its
  replacement, translated by the host at the time of the confirmation.
\<close>

theorem every_call_freezes:
  "(issued (sync_now_refresh f) evs (Call m a fr fm cb) \<longrightarrow> (\<exists>h1. evs = [Click h1])) \<and>
   (issued (sync_now_refresh f) [Click hc] (Call m a fr fm cb) \<longleftrightarrow>
      \<not> truthy (is_new f) \<and> truthy (get_prop (doc f) ''enabled'') \<and>
      m = ''moola_integration.api.sync_now'' \<and> a = None \<and>
      fr = Some (JBool True) \<and> fm = None \<and> cb = sync_now_callback) \<and>
   (issued (sync_from_date_refresh h f) evs (Call m a fr fm cb) \<longrightarrow>
      (\<exists>h1 h2 vs'. evs = [Click h1, Confirm h2 vs'])) \<and>
   (issued (sync_from_date_refresh h f) [Click hc, Confirm hp vs] (Call m a fr fm cb) \<longleftrightarrow>
      \<not> truthy (is_new f) \<and>
      m = ''moola_integration.api.sync_from_date'' \<and>
      a = Some [(''from_date'', get_prop vs ''from_date''),
                (''advance_cursor'',
                   if truthy (get_prop vs ''advance_cursor'') then JNum 1 else JNum 0)] \<and>
      fr = Some (JBool True) \<and>
      fm = Some (translate hp syncing_from (Some [get_prop vs ''from_date''])) \<and>
      cb = sync_from_date_callback)"
proof (intro conjI impI)
  assume "issued (sync_now_refresh f) evs (Call m a fr fm cb)"
  then show "\<exists>h1. evs = [Click h1]"
    by (rule issued_sync_now_refresh)
next
  show "issued (sync_now_refresh f) [Click hc] (Call m a fr fm cb) \<longleftrightarrow>
      \<not> truthy (is_new f) \<and> truthy (get_prop (doc f) ''enabled'') \<and>
      m = ''moola_integration.api.sync_now'' \<and> a = None \<and>
      fr = Some (JBool True) \<and> fm = None \<and> cb = sync_now_callback"
    by (rule sync_now_call_at_click)
next
  assume "issued (sync_from_date_refresh h f) evs (Call m a fr fm cb)"
  then show "\<exists>h1 h2 vs'. evs = [Click h1, Confirm h2 vs']"
    by (rule issued_sync_from_date_refresh)
next
  show "issued (sync_from_date_refresh h f) [Click hc, Confirm hp vs] (Call m a fr fm cb) \<longleftrightarrow>
      \<not> truthy (is_new f) \<and>
      m = ''moola_integration.api.sync_from_date'' \<and>
      a = Some [(''from_date'', get_prop vs ''from_date''),
                (''advance_cursor'',
                   if truthy (get_prop vs ''advance_cursor'') then JNum 1 else JNum 0)] \<and>
      fr = Some (JBool True) \<and>
      fm = Some (translate hp syncing_from (Some [get_prop vs ''from_date''])) \<and>
      cb = sync_from_date_callback"
    by (rule sync_from_date_call_at_confirm)
qed

theorem every_call_freezes_witness:
  "issued (sync_now_refresh \<lparr>is_new = JUndefined, doc = [(''enabled'', JNum 1)]\<rparr>)
     [Click stub_host]
     (Call ''moola_integration.api.sync_now'' None (Some (JBool True)) None
        sync_now_callback) \<and>
   issued (sync_from_date_refresh stub_host
             \<lparr>is_new = JUndefined, doc = [(''enabled'', JNum 1)]\<rparr>)
     [Click stub_host,
      Confirm stub_host [(''from_date'', JStr ''2024-01-01''), (''advance_cursor'', JNum 0)]]
     (Call ''moola_integration.api.sync_from_date''
        (Some [(''from_date'', JStr ''2024-01-01''), (''advance_cursor'', JNum 0)])
        (Some (JBool True))
        (Some (JArr [JStr syncing_from, JStr ''2024-01-01'']))
        sync_from_date_callback)"
  using
    every_call_freezes
      [where f = "\<lparr>is_new = JUndefined, doc = [(''enabled'', JNum 1)]\<rparr>"
         and hc = stub_host and evs = "[Click stub_host]"
         and m = "''moola_integration.api.sync_now''" and a = None
         and fr = "Some (JBool True)" and fm = None and cb = sync_now_callback]
    every_call_freezes
      [where f = "\<lparr>is_new = JUndefined, doc = [(''enabled'', JNum 1)]\<rparr>"
         and h = stub_host and hc = stub_host and hp = stub_host
         and vs = "[(''from_date'', JStr ''2024-01-01''), (''advance_cursor'', JNum 0)]"
         and evs = "[Click stub_host,
              Confirm stub_host
                [(''from_date'', JStr ''2024-01-01''), (''advance_cursor'', JNum 0)]]"
         and m = "''moola_integration.api.sync_from_date''"
         and a = "Some [(''from_date'', JStr ''2024-01-01''), (''advance_cursor'', JNum 0)]"
         and fr = "Some (JBool True)"
         and fm = "Some (JArr [JStr syncing_from, JStr ''2024-01-01''])"
         and cb = sync_from_date_callback]
  by (simp add: get_prop_def stub_host_def)

end
